theory Spec2Isabelle
  imports Complex_Main
begin

section \<open>Python values and exceptions\<close>

text \<open>
  The client (\<^verbatim>\<open>frontend/chat_deployed.py\<close>) works on whatever \<^verbatim>\<open>json.loads\<close>
  returns, without checking its shape. The model therefore keeps the dynamic typing: a
  JSON value is one datatype, and every operation the code applies to such a value
  (truth test, \<^verbatim>\<open>in\<close>, subscript, \<^verbatim>\<open>.get\<close>, tuple unpacking) is a function that
  returns the exception Python would raise when the value has the wrong type.
  \<^verbatim>\<open>JNull\<close> is Python's \<^verbatim>\<open>None\<close>; a dict is an association list whose keys are distinct.
\<close>

datatype pyfloat = Finite rat | PosInf | NegInf | NaN

datatype json =
    JNull
  | JBool bool
  | JInt int
  | JFloat pyfloat
  | JStr string
  | JArr "json list"
  | JObj "(string \<times> json) list"

datatype error =
    JSONDecodeError
  | TypeError
  | ValueError
  | KeyError
  | AttributeError
  | UnboundLocalError
  | IndexError

text \<open>Python's truth test (\<^verbatim>\<open>if v:\<close>).\<close>

fun truthy :: "json \<Rightarrow> bool" where
  "truthy JNull = False"
| "truthy (JBool b) = b"
| "truthy (JInt i) = (i \<noteq> 0)"
| "truthy (JFloat (Finite r)) = (r \<noteq> 0)"
| "truthy (JFloat PosInf) = True"
| "truthy (JFloat NegInf) = True"
| "truthy (JFloat NaN) = True"
| "truthy (JStr s) = (s \<noteq> [])"
| "truthy (JArr xs) = (xs \<noteq> [])"
| "truthy (JObj kvs) = (kvs \<noteq> [])"

text \<open>\<^verbatim>\<open>s.startswith(p)\<close> and the substring test \<^verbatim>\<open>p in s\<close> on strings.\<close>

definition startswith :: "string \<Rightarrow> string \<Rightarrow> bool" where
  "startswith s p = (take (length p) s = p)"

fun str_contains :: "string \<Rightarrow> string \<Rightarrow> bool" where
  "str_contains [] p = (p = [])"
| "str_contains (c # cs) p = (if startswith (c # cs) p then True else str_contains cs p)"

text \<open>
  \<^verbatim>\<open>s.strip()\<close>: whitespace is removed at both ends. Characters are code points below
  256; these are the ones Python counts as whitespace in that range.
\<close>

definition is_space :: "char \<Rightarrow> bool" where
  "is_space c = ((of_char c :: nat) \<in> {9, 10, 11, 12, 13, 28, 29, 30, 31, 32, 133, 160})"

definition strip :: "string \<Rightarrow> string" where
  "strip s = rev (dropWhile is_space (rev (dropWhile is_space s)))"

text \<open>\<^verbatim>\<open>a, b = v\<close>: unpacking iterates over \<^verbatim>\<open>v\<close>; a dict yields its keys, a string its
  characters; a number, a boolean or \<^verbatim>\<open>None\<close> is not iterable.\<close>

fun unpack2 :: "json \<Rightarrow> error + (json \<times> json)" where
  "unpack2 (JArr [a, b]) = Inr (a, b)"
| "unpack2 (JArr _) = Inl ValueError"
| "unpack2 (JObj [(k1, _), (k2, _)]) = Inr (JStr k1, JStr k2)"
| "unpack2 (JObj _) = Inl ValueError"
| "unpack2 (JStr [c1, c2]) = Inr (JStr [c1], JStr [c2])"
| "unpack2 (JStr _) = Inl ValueError"
| "unpack2 _ = Inl TypeError"

text \<open>\<^verbatim>\<open>key in v\<close> for a string \<^verbatim>\<open>key\<close>: key membership in a dict, substring test in a
  string, element membership in a list, \<^verbatim>\<open>TypeError\<close> otherwise.\<close>

fun py_in :: "string \<Rightarrow> json \<Rightarrow> error + bool" where
  "py_in key (JObj kvs) = Inr (key \<in> set (map fst kvs))"
| "py_in key (JStr s) = Inr (str_contains s key)"
| "py_in key (JArr xs) = Inr (JStr key \<in> set xs)"
| "py_in key _ = Inl TypeError"

text \<open>\<^verbatim>\<open>v[key]\<close> for a string \<^verbatim>\<open>key\<close>: only a dict accepts it.\<close>

fun py_item :: "json \<Rightarrow> string \<Rightarrow> error + json" where
  "py_item (JObj kvs) key = (case map_of kvs key of None \<Rightarrow> Inl KeyError | Some v \<Rightarrow> Inr v)"
| "py_item _ key = Inl TypeError"

text \<open>\<^verbatim>\<open>v[0]\<close>: first element of a list, first character of a string; a dict decoded from
  JSON has string keys only, so the integer key is missing.\<close>

fun py_item0 :: "json \<Rightarrow> error + json" where
  "py_item0 (JArr []) = Inl IndexError"
| "py_item0 (JArr (x # _)) = Inr x"
| "py_item0 (JStr []) = Inl IndexError"
| "py_item0 (JStr (c # _)) = Inr (JStr [c])"
| "py_item0 (JObj _) = Inl KeyError"
| "py_item0 _ = Inl TypeError"

text \<open>\<^verbatim>\<open>v.get(key, "")\<close>: only a dict has the method.\<close>

fun py_get :: "json \<Rightarrow> string \<Rightarrow> error + json" where
  "py_get (JObj kvs) key = (case map_of kvs key of None \<Rightarrow> Inr (JStr []) | Some v \<Rightarrow> Inr v)"
| "py_get _ key = Inl AttributeError"

text \<open>
  The f-string \<^verbatim>\<open>f"\n\n< TOOL CALL: {tool_name} >\n\n"\<close>. A string is inserted as it
  is; for any other value Python inserts \<^verbatim>\<open>str(tool_name)\<close>, a builtin taken here as the
  parameter \<open>str_of\<close>.
\<close>

definition tool_call_header :: "(json \<Rightarrow> string) \<Rightarrow> json \<Rightarrow> string" where
  "tool_call_header str_of tool_name =
     ''\<newline>\<newline>< TOOL CALL: '' @ (case tool_name of JStr s \<Rightarrow> s | _ \<Rightarrow> str_of tool_name)
       @ '' >\<newline>\<newline>''"

section \<open>The client: \<^verbatim>\<open>process_line\<close> and \<^verbatim>\<open>get_stream\<close>\<close>

text \<open>
  \<^verbatim>\<open>json.loads\<close> is the library's; it is the parameter \<open>loads\<close>, with \<open>None\<close> for a
  \<^verbatim>\<open>JSONDecodeError\<close>. The \<^verbatim>\<open>except\<close> clause of \<^verbatim>\<open>process_line\<close> prints and re-raises, so an
  exception leaves the function as it arose. The local \<^verbatim>\<open>tool_call_str\<close> is an option:
  \<open>None\<close> while it is unassigned. A function that ends without \<^verbatim>\<open>return\<close>, or with a bare
  \<^verbatim>\<open>return\<close>, returns \<^verbatim>\<open>None\<close>, that is \<open>JNull\<close>.
\<close>

definition process_line ::
  "(string \<Rightarrow> json option) \<Rightarrow> (json \<Rightarrow> string) \<Rightarrow> string \<Rightarrow> string option \<Rightarrow> error + json" where
  "process_line loads str_of line current_event =
    (if startswith line ''data: '' then
       (let data_content = drop 6 line in
        if current_event = Some ''messages'' then
          (case loads data_content of
             None \<Rightarrow> Inl JSONDecodeError
           | Some v \<Rightarrow>
          (case unpack2 v of
             Inl e \<Rightarrow> Inl e
           | Inr (message_chunk, metadata) \<Rightarrow>
          (case py_in ''type'' message_chunk of
             Inl e \<Rightarrow> Inl e
           | Inr False \<Rightarrow> Inr JNull
           | Inr True \<Rightarrow>
          (case py_item message_chunk ''type'' of
             Inl e \<Rightarrow> Inl e
           | Inr ty \<Rightarrow>
             if ty = JStr ''AIMessageChunk'' then
               (case py_item message_chunk ''response_metadata'' of
                  Inl e \<Rightarrow> Inl e
                | Inr response_metadata \<Rightarrow>
               (case (if truthy response_metadata
                      then (case py_get response_metadata ''finish_reason'' of
                              Inl e \<Rightarrow> Inl e
                            | Inr finish_reason \<Rightarrow> Inr (finish_reason = JStr ''tool_calls''))
                      else Inr False) of
                  Inl e \<Rightarrow> Inl e
                | Inr True \<Rightarrow> Inr (JStr ''\<newline>\<newline>'')
                | Inr False \<Rightarrow>
               (case py_item message_chunk ''tool_call_chunks'' of
                  Inl e \<Rightarrow> Inl e
                | Inr tool_call_chunks \<Rightarrow>
                  if truthy tool_call_chunks then
                    (case py_item0 tool_call_chunks of
                       Inl e \<Rightarrow> Inl e
                     | Inr tool_chunk \<Rightarrow>
                    (case py_get tool_chunk ''name'' of
                       Inl e \<Rightarrow> Inl e
                     | Inr tool_name \<Rightarrow>
                    (case py_get tool_chunk ''args'' of
                       Inl e \<Rightarrow> Inl e
                     | Inr args \<Rightarrow>
                       (let tool_call_str1 =
                              (if truthy tool_name
                               then Some (JStr (tool_call_header str_of tool_name)) else None);
                            tool_call_str2 =
                              (if truthy args then Some args else tool_call_str1)
                        in case tool_call_str2 of
                             None \<Rightarrow> Inl UnboundLocalError
                           | Some tool_call_str \<Rightarrow> Inr tool_call_str))))
                  else py_item message_chunk ''content'')))
             else Inr JNull))))
        else if current_event = Some ''metadata'' then Inr JNull
        else Inr JNull)
     else Inr JNull)"

text \<open>
  The loop of \<^verbatim>\<open>get_stream\<close> over the lines of the response (the HTTP request itself is
  the collaborator's; its lines are the input). The state is \<^verbatim>\<open>full_content\<close> and
  \<^verbatim>\<open>current_event\<close>, which starts as \<^verbatim>\<open>None\<close>. \<^verbatim>\<open>full_content += message_chunk\<close> raises
  \<^verbatim>\<open>TypeError\<close> when the chunk is not a string. What the loop prints is what it appends.
\<close>

definition get_stream_step ::
  "(string \<Rightarrow> json option) \<Rightarrow> (json \<Rightarrow> string) \<Rightarrow> string \<times> string option \<Rightarrow> string
     \<Rightarrow> error + (string \<times> string option)" where
  "get_stream_step loads str_of st line =
    (case st of (full_content, current_event) \<Rightarrow>
      if line \<noteq> [] then
        (if startswith line ''event: '' then Inr (full_content, Some (strip (drop 7 line)))
         else
           (case process_line loads str_of line current_event of
              Inl e \<Rightarrow> Inl e
            | Inr message_chunk \<Rightarrow>
                if truthy message_chunk then
                  (case message_chunk of
                     JStr s \<Rightarrow> Inr (full_content @ s, current_event)
                   | _ \<Rightarrow> Inl TypeError)
                else Inr (full_content, current_event)))
      else Inr (full_content, current_event))"

fun get_stream_loop ::
  "(string \<Rightarrow> json option) \<Rightarrow> (json \<Rightarrow> string) \<Rightarrow> string \<times> string option \<Rightarrow> string list
     \<Rightarrow> error + (string \<times> string option)" where
  "get_stream_loop loads str_of st [] = Inr st"
| "get_stream_loop loads str_of st (line # lines) =
     (case get_stream_step loads str_of st line of
        Inl e \<Rightarrow> Inl e
      | Inr st' \<Rightarrow> get_stream_loop loads str_of st' lines)"

definition get_stream :: "(string \<Rightarrow> json option) \<Rightarrow> (json \<Rightarrow> string) \<Rightarrow> string list \<Rightarrow> error + string" where
  "get_stream loads str_of lines =
     (case get_stream_loop loads str_of ([], None) lines of
        Inl e \<Rightarrow> Inl e
      | Inr (full_content, current_event) \<Rightarrow> Inr full_content)"

section \<open>The agent: \<^verbatim>\<open>Agent.stream\<close>, \<^verbatim>\<open>scout_node\<close> and \<^verbatim>\<open>router\<close>\<close>

text \<open>
  \<^verbatim>\<open>Agent.stream\<close> (\<^verbatim>\<open>scout/graph.py\<close>) is a generator over the pairs that the compiled graph
  streams. Of a pair it reads the message object only: whether it is an
  \<^verbatim>\<open>AIMessageChunk\<close>, and then its attributes \<^verbatim>\<open>response_metadata\<close>,
  \<^verbatim>\<open>tool_call_chunks\<close> and \<^verbatim>\<open>content\<close>, which are Python values as above.
\<close>

record chunk_attrs =
  chunk_response_metadata :: json
  chunk_tool_call_chunks :: json
  chunk_content :: json

datatype stream_message = AIMessageChunk chunk_attrs | OtherMessage

text \<open>
  One iteration of the loop body. \<^verbatim>\<open>tool_call_str\<close> is a local of the generator, so it
  keeps its value from one iteration to the next: it is state, threaded through. The
  result is the values yielded in this iteration, in order, and either the exception
  that ended the generator or the new \<^verbatim>\<open>tool_call_str\<close>. After \<^verbatim>\<open>yield "\n\n"\<close> the body
  goes on to the next \<^verbatim>\<open>if\<close>.
\<close>

definition stream_body ::
  "(json \<Rightarrow> string) \<Rightarrow> json option \<Rightarrow> stream_message \<Rightarrow> json list \<times> (error + json option)" where
  "stream_body str_of tool_call_str0 message_chunk =
    (case message_chunk of
       OtherMessage \<Rightarrow> ([], Inr tool_call_str0)
     | AIMessageChunk c \<Rightarrow>
       (case (if truthy (chunk_response_metadata c)
              then (case py_get (chunk_response_metadata c) ''finish_reason'' of
                      Inl e \<Rightarrow> Inl e
                    | Inr finish_reason \<Rightarrow>
                        Inr (if finish_reason = JStr ''tool_calls''
                             then [JStr ''\<newline>\<newline>''] else []))
              else Inr []) of
          Inl e \<Rightarrow> ([], Inl e)
        | Inr yielded \<Rightarrow>
            if truthy (chunk_tool_call_chunks c) then
              (case py_item0 (chunk_tool_call_chunks c) of
                 Inl e \<Rightarrow> (yielded, Inl e)
               | Inr tool_chunk \<Rightarrow>
              (case py_get tool_chunk ''name'' of
                 Inl e \<Rightarrow> (yielded, Inl e)
               | Inr tool_name \<Rightarrow>
              (case py_get tool_chunk ''args'' of
                 Inl e \<Rightarrow> (yielded, Inl e)
               | Inr args \<Rightarrow>
                 (let tool_call_str1 =
                        (if truthy tool_name
                         then Some (JStr (tool_call_header str_of tool_name))
                         else tool_call_str0);
                      tool_call_str2 =
                        (if truthy args then Some args else tool_call_str1)
                  in case tool_call_str2 of
                       None \<Rightarrow> (yielded, Inl UnboundLocalError)
                     | Some tool_call_str \<Rightarrow>
                         (yielded @ [tool_call_str], Inr tool_call_str2)))))
            else (yielded @ [chunk_content c], Inr tool_call_str0)))"

fun stream_loop ::
  "(json \<Rightarrow> string) \<Rightarrow> json option \<Rightarrow> stream_message list \<Rightarrow> json list \<times> error option" where
  "stream_loop str_of tool_call_str [] = ([], None)"
| "stream_loop str_of tool_call_str (m # ms) =
     (case stream_body str_of tool_call_str m of
        (yielded, Inl e) \<Rightarrow> (yielded, Some e)
      | (yielded, Inr tool_call_str') \<Rightarrow>
          (case stream_loop str_of tool_call_str' ms of
             (rest, r) \<Rightarrow> (yielded @ rest, r)))"

text \<open>The generator: everything it yields, and the exception that ended it, if any.\<close>

definition stream :: "(json \<Rightarrow> string) \<Rightarrow> stream_message list \<Rightarrow> json list \<times> error option" where
  "stream str_of ms = stream_loop str_of None ms"

text \<open>
  The graph state and its two node functions. A message is one of the four classes of
  the message library; only an \<^verbatim>\<open>AIMessage\<close> has the attribute \<^verbatim>\<open>tool_calls\<close>, so reading
  it from another message raises \<^verbatim>\<open>AttributeError\<close>. The model call \<^verbatim>\<open>self.llm.invoke\<close> is
  the parameter \<open>llm\<close>; what it returns is an \<^verbatim>\<open>AIMessage\<close>. \<^verbatim>\<open>state.messages[-1]\<close> raises
  \<^verbatim>\<open>IndexError\<close> on an empty list.
\<close>

record tool_call =
  call_id :: string
  call_name :: string
  call_args :: json

record ai_message =
  content :: string
  tool_calls :: "tool_call list"

datatype message =
    SystemMessage string
  | HumanMessage string
  | AIMessage ai_message
  | ToolMessage string string

record ScoutState =
  messages :: "message list"
  chart_json :: string

datatype node = START | Chatbot | Tools | END

fun message_tool_calls :: "message \<Rightarrow> error + tool_call list" where
  "message_tool_calls (AIMessage m) = Inr (tool_calls m)"
| "message_tool_calls _ = Inl AttributeError"

definition scout_node :: "(message list \<Rightarrow> ai_message) \<Rightarrow> string \<Rightarrow> ScoutState \<Rightarrow> ScoutState" where
  "scout_node llm system_prompt state =
     (let response = AIMessage (llm ([SystemMessage system_prompt] @ messages state))
      in state\<lparr>messages := messages state @ [response]\<rparr>)"

definition router :: "ScoutState \<Rightarrow> error + node" where
  "router state =
     (case messages state of
        [] \<Rightarrow> Inl IndexError
      | _ # _ \<Rightarrow>
          (let last_message = last (messages state)
           in case message_tool_calls last_message of
                Inl e \<Rightarrow> Inl e
              | Inr calls \<Rightarrow> if calls = [] then Inr END else Inr Tools))"

text \<open>
  The edges that \<^verbatim>\<open>build_graph\<close> adds: from \<^verbatim>\<open>START\<close> to the chatbot, from the chatbot
  where the router says, from the tools back to the chatbot. \<^verbatim>\<open>END\<close> has no edge.
  \<open>after_chatbot\<close> is one step of the run at the chatbot: the node function, then the
  edge, taken on the state that the node returned.
\<close>

fun next_node :: "node \<Rightarrow> ScoutState \<Rightarrow> error + node" where
  "next_node START state = Inr Chatbot"
| "next_node Chatbot state = router state"
| "next_node Tools state = Inr Chatbot"
| "next_node END state = Inr END"

definition after_chatbot ::
  "(message list \<Rightarrow> ai_message) \<Rightarrow> string \<Rightarrow> ScoutState \<Rightarrow> error + (node \<times> ScoutState)" where
  "after_chatbot llm system_prompt state =
     (let state' = scout_node llm system_prompt state
      in case next_node Chatbot state' of
           Inl e \<Rightarrow> Inl e
         | Inr n \<Rightarrow> Inr (n, state'))"

section \<open>The environment module\<close>

text \<open>
  \<^verbatim>\<open>scout/env.py\<close> reads the environment into module variables and then loops over the
  list of required names. The loop variable is the name itself, a string literal, and
  the test is its truth value. The environment is a map from names to values.
\<close>

definition required_env_vars :: "string list" where
  "required_env_vars = [''SUPABASE_URL'', ''GROQ_API_KEY'']"

fun check_vars :: "string list \<Rightarrow> error + unit" where
  "check_vars [] = Inr ()"
| "check_vars (var # vars) = (if var = [] then Inl ValueError else check_vars vars)"

definition getenv :: "(string \<rightharpoonup> string) \<Rightarrow> string \<Rightarrow> string option" where
  "getenv environ name = environ name"

text \<open>The two required module variables as read, and then the check.\<close>

definition required_env_check :: "(string \<rightharpoonup> string) \<Rightarrow> error + (string option \<times> string option)" where
  "required_env_check environ =
     (let SUPABASE_URL = getenv environ ''SUPABASE_URL'';
          GROQ_API_KEY = getenv environ ''GROQ_API_KEY''
      in case check_vars required_env_vars of
           Inl e \<Rightarrow> Inl e
         | Inr _ \<Rightarrow> Inr (SUPABASE_URL, GROQ_API_KEY))"

section \<open>Vocabulary of the statements\<close>

text \<open>
  A decoded chunk is a JSON object. Its finish reason is the entry \<^verbatim>\<open>finish_reason\<close> of
  its \<^verbatim>\<open>response_metadata\<close>. \<open>no_finish_marker\<close> holds of a \<^verbatim>\<open>response_metadata\<close> value
  that carries no finish reason \<^verbatim>\<open>tool_calls\<close>: an object without that entry, or an empty
  value.
\<close>

fun no_finish_marker :: "json \<Rightarrow> bool" where
  "no_finish_marker (JObj rm) = (map_of rm ''finish_reason'' \<noteq> Some (JStr ''tool_calls''))"
| "no_finish_marker v = (\<not> truthy v)"

text \<open>
  \<open>arg_fragment v\<close> is the argument fragment that the decoded payload \<open>v\<close> carries: \<open>v\<close>
  is a pair of a chunk and its metadata, the chunk is an \<^verbatim>\<open>AIMessageChunk\<close> without the
  finish marker, and the first entry of its \<^verbatim>\<open>tool_call_chunks\<close> has a non-empty string
  under \<^verbatim>\<open>args\<close>.
\<close>

definition arg_fragment :: "json \<Rightarrow> string option" where
  "arg_fragment v =
     (case v of
        JArr [JObj chunk, metadata] \<Rightarrow>
          (if map_of chunk ''type'' = Some (JStr ''AIMessageChunk'') then
             (case (map_of chunk ''response_metadata'', map_of chunk ''tool_call_chunks'') of
                (Some rm, Some (JArr (JObj fragment # rest))) \<Rightarrow>
                  (if no_finish_marker rm then
                     (case map_of fragment ''args'' of
                        Some (JStr a) \<Rightarrow> (if a = [] then None else Some a)
                      | _ \<Rightarrow> None)
                   else None)
              | _ \<Rightarrow> None)
           else None)
      | _ \<Rightarrow> None)"

text \<open>The wire format of one decoded chunk: its event marker, then its data line.\<close>

definition messages_event :: "string \<Rightarrow> string list" where
  "messages_event payload = [''event: messages'', ''data: '' @ payload]"

subsection \<open>Sample payloads\<close>

text \<open>
  Payloads as they arrive on the wire, and what \<^verbatim>\<open>json.loads\<close> returns for each of them.
  \<open>sample_loads\<close> is \<^verbatim>\<open>json.loads\<close> restricted to these texts. All tool names in them are
  strings, so \<^verbatim>\<open>str\<close> is never applied to one; \<open>sample_str_of\<close> stands for it.
\<close>

definition hi_payload :: string where
  \<open>hi_payload = ''[{"type":"AIMessageChunk","content":"Hi","tool_call_chunks":[],"response_metadata":{}}, {}]''\<close>

definition name_payload :: string where
  \<open>name_payload = ''[{"type":"AIMessageChunk","content":"","tool_call_chunks":[{"index":0,"name":"query_db","args":""}],"response_metadata":{}}, {}]''\<close>

definition args_payload :: string where
  \<open>args_payload = ''[{"type":"AIMessageChunk","content":"","tool_call_chunks":[{"index":0,"args":"{'' @ [CHR 0x5C] @ ''"q'' @ [CHR 0x5C] @ ''":1}"}],"response_metadata":{}}, {}]''\<close>

definition args_open_payload :: string where
  \<open>args_open_payload = ''[{"type":"AIMessageChunk","content":"","tool_call_chunks":[{"index":0,"args":"{'' @ [CHR 0x5C] @ ''"q'' @ [CHR 0x5C] @ ''":"}],"response_metadata":{}}, {}]''\<close>

definition args_close_payload :: string where
  \<open>args_close_payload = ''[{"type":"AIMessageChunk","content":"","tool_call_chunks":[{"index":0,"args":"1}"}],"response_metadata":{}}, {}]''\<close>

definition name_args_payload :: string where
  \<open>name_args_payload = ''[{"type":"AIMessageChunk","content":"","tool_call_chunks":[{"index":0,"name":"query_db","args":"{'' @ [CHR 0x5C] @ ''"q'' @ [CHR 0x5C] @ ''":1}"}],"response_metadata":{}}, {}]''\<close>

definition empty_fragment_payload :: string where
  \<open>empty_fragment_payload = ''[{"type":"AIMessageChunk","content":"","tool_call_chunks":[{"index":0,"args":""}],"response_metadata":{}}, {}]''\<close>

definition finish_payload :: string where
  \<open>finish_payload = ''[{"type":"AIMessageChunk","content":"done","tool_call_chunks":[{"index":0,"args":"}"}],"response_metadata":{"finish_reason":"tool_calls"}}, {}]''\<close>

definition tool_message_payload :: string where
  \<open>tool_message_payload = ''[{"type":"tool","content":"3 rows","name":"query_db"}, {}]''\<close>

definition metadata_payload :: string where
  \<open>metadata_payload = ''{"run_id":"1ef"}''\<close>

definition ai_chunk :: "string \<Rightarrow> json \<Rightarrow> json \<Rightarrow> json" where
  "ai_chunk text fragments response_metadata =
     JArr [JObj [(''type'', JStr ''AIMessageChunk''), (''content'', JStr text),
                 (''tool_call_chunks'', fragments), (''response_metadata'', response_metadata)],
           JObj []]"

definition sample_table :: "(string \<times> json) list" where
  \<open>sample_table =
    [(hi_payload, ai_chunk ''Hi'' (JArr []) (JObj [])),
     (name_payload,
        ai_chunk [] (JArr [JObj [(''index'', JInt 0), (''name'', JStr ''query_db''), (''args'', JStr [])]])
          (JObj [])),
     (args_payload,
        ai_chunk [] (JArr [JObj [(''index'', JInt 0), (''args'', JStr ''{"q":1}'')]]) (JObj [])),
     (args_open_payload,
        ai_chunk [] (JArr [JObj [(''index'', JInt 0), (''args'', JStr ''{"q":'')]]) (JObj [])),
     (args_close_payload,
        ai_chunk [] (JArr [JObj [(''index'', JInt 0), (''args'', JStr ''1}'')]]) (JObj [])),
     (name_args_payload,
        ai_chunk []
          (JArr [JObj [(''index'', JInt 0), (''name'', JStr ''query_db''), (''args'', JStr ''{"q":1}'')]])
          (JObj [])),
     (empty_fragment_payload,
        ai_chunk [] (JArr [JObj [(''index'', JInt 0), (''args'', JStr [])]]) (JObj [])),
     (finish_payload,
        ai_chunk ''done'' (JArr [JObj [(''index'', JInt 0), (''args'', JStr ''}'')]])
          (JObj [(''finish_reason'', JStr ''tool_calls'')])),
     (tool_message_payload,
        JArr [JObj [(''type'', JStr ''tool''), (''content'', JStr ''3 rows''),
                    (''name'', JStr ''query_db'')],
              JObj []]),
     (metadata_payload, JObj [(''run_id'', JStr ''1ef'')])]\<close>

definition sample_loads :: "string \<Rightarrow> json option" where
  "sample_loads text = map_of sample_table text"

definition sample_str_of :: "json \<Rightarrow> string" where
  "sample_str_of v = []"

text \<open>The chunks of \<open>finish_payload\<close>, \<open>name_args_payload\<close> and \<open>empty_fragment_payload\<close> as
  the message objects that \<^verbatim>\<open>Agent.stream\<close> receives.\<close>

definition finish_chunk :: stream_message where
  "finish_chunk =
     AIMessageChunk
       \<lparr>chunk_response_metadata = JObj [(''finish_reason'', JStr ''tool_calls'')],
        chunk_tool_call_chunks = JArr [JObj [(''index'', JInt 0), (''args'', JStr ''}'')]],
        chunk_content = JStr ''done''\<rparr>"

definition name_args_chunk :: stream_message where
  \<open>name_args_chunk =
     AIMessageChunk
       \<lparr>chunk_response_metadata = JObj [],
        chunk_tool_call_chunks =
          JArr [JObj [(''index'', JInt 0), (''name'', JStr ''query_db''),
                      (''args'', JStr ''{"q":1}'')]],
        chunk_content = JStr []\<rparr>\<close>

definition empty_fragment_chunk :: stream_message where
  "empty_fragment_chunk =
     AIMessageChunk
       \<lparr>chunk_response_metadata = JObj [],
        chunk_tool_call_chunks = JArr [JObj [(''index'', JInt 0), (''args'', JStr [])]],
        chunk_content = JStr []\<rparr>"

text \<open>A model that answers without asking for a tool, one that asks for \<^verbatim>\<open>query_db\<close>, and
  a conversation whose last message is the model's answer.\<close>

definition plain_reply :: ai_message where
  "plain_reply = \<lparr>content = ''Hi'', tool_calls = []\<rparr>"

definition tool_reply :: ai_message where
  "tool_reply =
     \<lparr>content = [],
      tool_calls = [\<lparr>call_id = ''call_1'', call_name = ''query_db'',
                     call_args = JObj [(''q'', JInt 1)]\<rparr>]\<rparr>"

definition plain_llm :: "message list \<Rightarrow> ai_message" where
  "plain_llm history = plain_reply"

definition tool_llm :: "message list \<Rightarrow> ai_message" where
  "tool_llm history = tool_reply"

definition answered :: ScoutState where
  "answered = \<lparr>messages = [HumanMessage ''Hello'', AIMessage plain_reply], chart_json = []\<rparr>"

section \<open>Facts about the model\<close>

subsection \<open>Reading a line\<close>

lemma map_of_key: "map_of kvs k = Some v \<Longrightarrow> k \<in> fst ` set kvs"
  by (metis map_of_eq_None_iff option.distinct(1))

lemma strip_messages: "strip ''messages'' = ''messages''"
  by (simp add: strip_def is_space_def)

text \<open>The test on \<^verbatim>\<open>response_metadata\<close> is negative exactly as \<open>no_finish_marker\<close> says.\<close>

lemma finish_test_negative:
  assumes "no_finish_marker rm"
  shows "(if truthy rm
          then (case py_get rm ''finish_reason'' of
                  Inl e \<Rightarrow> Inl e
                | Inr finish_reason \<Rightarrow> Inr (finish_reason = JStr ''tool_calls''))
          else Inr False) = Inr False"
  using assms by (cases rm) (auto split: option.splits)

text \<open>A chunk whose \<^verbatim>\<open>type\<close> is not \<^verbatim>\<open>AIMessageChunk\<close>: the function falls off its end.\<close>

lemma process_line_not_ai:
  assumes "loads d = Some (JArr [JObj chunk, metadata])"
    and "map_of chunk ''type'' \<noteq> Some (JStr ''AIMessageChunk'')"
  shows "process_line loads str_of (''data: '' @ d) (Some ''messages'') = Inr JNull"
proof (cases "map_of chunk ''type''")
  case None
  then have "''type'' \<notin> fst ` set chunk" by (simp add: map_of_eq_None_iff)
  then show ?thesis using assms(1) by (simp add: process_line_def startswith_def)
next
  case (Some ty)
  then have "''type'' \<in> fst ` set chunk" by (rule map_of_key)
  then show ?thesis using assms Some by (simp add: process_line_def startswith_def)
qed

text \<open>The three branches of an \<^verbatim>\<open>AIMessageChunk\<close>: finish marker, tool-call fragment, content.\<close>

lemma process_line_finish:
  assumes "loads d = Some (JArr [JObj chunk, metadata])"
    and "map_of chunk ''type'' = Some (JStr ''AIMessageChunk'')"
    and "map_of chunk ''response_metadata'' = Some (JObj rm)"
    and "map_of rm ''finish_reason'' = Some (JStr ''tool_calls'')"
  shows "process_line loads str_of (''data: '' @ d) (Some ''messages'') = Inr (JStr ''\<newline>\<newline>'')"
proof -
  have "''type'' \<in> fst ` set chunk" using assms(2) by (rule map_of_key)
  moreover have "rm \<noteq> []" using assms(4) by auto
  ultimately show ?thesis using assms by (simp add: process_line_def startswith_def)
qed

lemma process_line_tool_chunk:
  assumes "loads d = Some (JArr [JObj chunk, metadata])"
    and "map_of chunk ''type'' = Some (JStr ''AIMessageChunk'')"
    and "map_of chunk ''response_metadata'' = Some rm"
    and "no_finish_marker rm"
    and "map_of chunk ''tool_call_chunks'' = Some (JArr (JObj fragment # rest))"
  shows "process_line loads str_of (''data: '' @ d) (Some ''messages'') =
          (case (py_get (JObj fragment) ''name'', py_get (JObj fragment) ''args'') of
             (Inr tool_name, Inr args) \<Rightarrow>
               if truthy args then Inr args
               else if truthy tool_name then Inr (JStr (tool_call_header str_of tool_name))
               else Inl UnboundLocalError
           | _ \<Rightarrow> Inl AttributeError)"
proof -
  have ty: "''type'' \<in> fst ` set chunk" using assms(2) by (rule map_of_key)
  note fin = finish_test_negative [OF assms(4)]
  show ?thesis using assms(1,2,3,5) ty
    by (simp add: process_line_def startswith_def fin split: option.splits)
qed

lemma process_line_content:
  assumes "loads d = Some (JArr [JObj chunk, metadata])"
    and "map_of chunk ''type'' = Some (JStr ''AIMessageChunk'')"
    and "map_of chunk ''response_metadata'' = Some rm"
    and "no_finish_marker rm"
    and "map_of chunk ''tool_call_chunks'' = Some fragments"
    and "\<not> truthy fragments"
    and "map_of chunk ''content'' = Some text"
  shows "process_line loads str_of (''data: '' @ d) (Some ''messages'') = Inr text"
proof -
  have ty: "''type'' \<in> fst ` set chunk" using assms(2) by (rule map_of_key)
  note fin = finish_test_negative [OF assms(4)]
  show ?thesis using assms(1,2,3,5,6,7) ty
    by (simp add: process_line_def startswith_def fin)
qed

lemma process_line_other_kind:
  "current_event \<noteq> Some ''messages'' \<Longrightarrow> process_line loads str_of line current_event = Inr JNull"
  by (simp add: process_line_def Let_def)

text \<open>A chunk that carries an argument fragment yields that fragment.\<close>

lemma arg_fragment_unit:
  assumes "loads d = Some v" and "arg_fragment v = Some a"
  shows "process_line loads str_of (''data: '' @ d) (Some ''messages'') = Inr (JStr a)"
proof -
  from assms(2) obtain chunk metadata rm fragment rest where
    v: "v = JArr [JObj chunk, metadata]"
    and ty: "map_of chunk ''type'' = Some (JStr ''AIMessageChunk'')"
    and rm: "map_of chunk ''response_metadata'' = Some rm" "no_finish_marker rm"
    and tc: "map_of chunk ''tool_call_chunks'' = Some (JArr (JObj fragment # rest))"
    and a: "map_of fragment ''args'' = Some (JStr a)" "a \<noteq> []"
    by (auto simp: arg_fragment_def split: json.splits list.splits if_splits option.splits)
  show ?thesis
    using process_line_tool_chunk [where loads = loads and d = d and str_of = str_of,
        OF assms(1) [unfolded v] ty rm tc] a
    by (simp split: option.splits)
qed

text \<open>\<^verbatim>\<open>Agent.stream\<close> on a chunk with the finish marker and no fragments: the paragraph
  break, then the content.\<close>

lemma stream_body_finish_then_content:
  assumes "chunk_response_metadata c = JObj rm"
    and "map_of rm ''finish_reason'' = Some (JStr ''tool_calls'')"
    and "\<not> truthy (chunk_tool_call_chunks c)"
  shows "stream_body str_of tool_call_str (AIMessageChunk c)
           = ([JStr ''\<newline>\<newline>'', chunk_content c], Inr tool_call_str)"
proof -
  have "rm \<noteq> []" using assms(2) by auto
  then show ?thesis using assms by (simp add: stream_body_def)
qed

subsection \<open>One step of the loop\<close>

lemma get_stream_step_marker:
  "get_stream_step loads str_of (full_content, current_event) ''event: messages''
     = Inr (full_content, Some ''messages'')"
  by (simp add: get_stream_step_def startswith_def strip_messages)

lemma get_stream_step_text:
  assumes "process_line loads str_of (''data: '' @ d) current_event = Inr (JStr s)"
  shows "get_stream_step loads str_of (full_content, current_event) (''data: '' @ d)
           = Inr (full_content @ s, current_event)"
  using assms by (simp add: get_stream_step_def startswith_def)

lemma get_stream_step_nothing:
  assumes "process_line loads str_of (''data: '' @ d) current_event = Inr JNull"
  shows "get_stream_step loads str_of (full_content, current_event) (''data: '' @ d)
           = Inr (full_content, current_event)"
  using assms by (simp add: get_stream_step_def startswith_def)

lemma get_stream_step_raises:
  assumes "process_line loads str_of (''data: '' @ d) current_event = Inl e"
  shows "get_stream_step loads str_of (full_content, current_event) (''data: '' @ d) = Inl e"
  using assms by (simp add: get_stream_step_def startswith_def)

lemma get_stream_one_event:
  assumes "process_line loads str_of (''data: '' @ d) (Some ''messages'') = Inr (JStr s)"
  shows "get_stream loads str_of (messages_event d) = Inr s"
  using get_stream_step_text [OF assms, of "[]"]
  by (simp add: get_stream_def messages_event_def get_stream_step_marker)

text \<open>The loop over a stream of argument fragments, from any state.\<close>

lemma get_stream_loop_fragments:
  assumes "\<forall>(d, a) \<in> set das. Option.bind (loads d) arg_fragment = Some a"
  shows "get_stream_loop loads str_of (full_content, current_event)
           (concat (map (\<lambda>(d, a). messages_event d) das))
         = Inr (full_content @ concat (map snd das),
                if das = [] then current_event else Some ''messages'')"
  using assms
proof (induction das arbitrary: full_content current_event)
  case Nil
  then show ?case by simp
next
  case (Cons p das)
  obtain d a where p: "p = (d, a)" by (cases p)
  from Cons.prems p obtain v where "loads d = Some v" "arg_fragment v = Some a"
    by (auto simp: bind_eq_Some_conv)
  then have u: "process_line loads str_of (''data: '' @ d) (Some ''messages'') = Inr (JStr a)"
    by (rule arg_fragment_unit)
  have rest: "\<forall>(d, a) \<in> set das. Option.bind (loads d) arg_fragment = Some a"
    using Cons.prems by simp
  show ?case
    using Cons.IH [OF rest, of "full_content @ a" "Some ''messages''"]
    by (simp add: p messages_event_def get_stream_step_marker
          get_stream_step_text [OF u, simplified])
qed

subsection \<open>The sample payloads decoded\<close>

lemmas payload_defs = hi_payload_def name_payload_def args_payload_def args_open_payload_def
  args_close_payload_def name_args_payload_def empty_fragment_payload_def finish_payload_def
  tool_message_payload_def metadata_payload_def

lemma sample_loads_hi: "sample_loads hi_payload = Some (ai_chunk ''Hi'' (JArr []) (JObj []))"
  by (simp add: sample_loads_def sample_table_def payload_defs)

lemma sample_loads_name:
  "sample_loads name_payload =
     Some (ai_chunk []
       (JArr [JObj [(''index'', JInt 0), (''name'', JStr ''query_db''), (''args'', JStr [])]])
       (JObj []))"
  by (simp add: sample_loads_def sample_table_def payload_defs)

lemma sample_loads_args:
  \<open>sample_loads args_payload =
     Some (ai_chunk [] (JArr [JObj [(''index'', JInt 0), (''args'', JStr ''{"q":1}'')]]) (JObj []))\<close>
  by (simp add: sample_loads_def sample_table_def payload_defs)

lemma sample_loads_name_args:
  \<open>sample_loads name_args_payload =
     Some (ai_chunk []
       (JArr [JObj [(''index'', JInt 0), (''name'', JStr ''query_db''), (''args'', JStr ''{"q":1}'')]])
       (JObj []))\<close>
  by (simp add: sample_loads_def sample_table_def payload_defs)

lemma sample_loads_empty_fragment:
  "sample_loads empty_fragment_payload =
     Some (ai_chunk [] (JArr [JObj [(''index'', JInt 0), (''args'', JStr [])]]) (JObj []))"
  by (simp add: sample_loads_def sample_table_def payload_defs)

lemma sample_loads_finish:
  "sample_loads finish_payload =
     Some (ai_chunk ''done'' (JArr [JObj [(''index'', JInt 0), (''args'', JStr ''}'')]])
          (JObj [(''finish_reason'', JStr ''tool_calls'')]))"
  by (simp add: sample_loads_def sample_table_def payload_defs)

lemma sample_loads_open:
  \<open>sample_loads args_open_payload =
     Some (ai_chunk [] (JArr [JObj [(''index'', JInt 0), (''args'', JStr ''{"q":'')]]) (JObj []))\<close>
  by (simp add: sample_loads_def sample_table_def payload_defs)

lemma sample_loads_close:
  \<open>sample_loads args_close_payload =
     Some (ai_chunk [] (JArr [JObj [(''index'', JInt 0), (''args'', JStr ''1}'')]]) (JObj []))\<close>
  by (simp add: sample_loads_def sample_table_def payload_defs)

lemma sample_loads_tool_message:
  "sample_loads tool_message_payload =
     Some (JArr [JObj [(''type'', JStr ''tool''), (''content'', JStr ''3 rows''),
                       (''name'', JStr ''query_db'')],
                 JObj []])"
  by (simp add: sample_loads_def sample_table_def payload_defs)

section \<open>The claims\<close>

subsection \<open>C1: the finish marker\<close>

text \<open>
  C1 says that a chunk whose finish reason is \<^verbatim>\<open>tool_calls\<close> yields the paragraph break
  and nothing else, whatever its content and tool-call fragments. \<^verbatim>\<open>process_line\<close> does
  so: it returns at the marker (\<open>process_line_finish\<close> above, for every such chunk).
  \<^verbatim>\<open>Agent.stream\<close> yields the paragraph break and then goes on to the tool-call and content
  branches (\<open>stream_body_finish_then_content\<close> above). On the same chunk, with finish
  reason \<^verbatim>\<open>tool_calls\<close>, content \<^verbatim>\<open>done\<close> and one fragment with the argument text \<^verbatim>\<open>}\<close>,
  \<^verbatim>\<open>Agent.stream\<close> yields two units and \<^verbatim>\<open>process_line\<close> returns one.
\<close>

theorem stream_finish_marker_falls_through:
  "stream sample_str_of [finish_chunk] = ([JStr ''\<newline>\<newline>'', JStr ''}''], None)
   \<and> process_line sample_loads sample_str_of (''data: '' @ finish_payload) (Some ''messages'')
       = Inr (JStr ''\<newline>\<newline>'')"
proof
  show "stream sample_str_of [finish_chunk] = ([JStr ''\<newline>\<newline>'', JStr ''}''], None)"
    by (simp add: stream_def stream_body_def finish_chunk_def)
  show "process_line sample_loads sample_str_of (''data: '' @ finish_payload) (Some ''messages'')
       = Inr (JStr ''\<newline>\<newline>'')"
    by (rule process_line_finish [where loads = sample_loads and d = finish_payload
          and rm = "[(''finish_reason'', JStr ''tool_calls'')]",
          OF sample_loads_finish [unfolded ai_chunk_def]])
       simp_all
qed

subsection \<open>C2: the header of a tool call\<close>

text \<open>
  A first fragment that carries a tool name and no argument text yields the header, and
  the spec's example, the name \<^verbatim>\<open>query_db\<close> with empty arguments and then the arguments
  \<^verbatim>\<open>{"q":1}\<close>, is aggregated to the header followed by the arguments.
\<close>

lemma name_only_fragment_header:
  assumes "loads d = Some (JArr [JObj chunk, metadata])"
    and "map_of chunk ''type'' = Some (JStr ''AIMessageChunk'')"
    and "map_of chunk ''response_metadata'' = Some rm"
    and "no_finish_marker rm"
    and "map_of chunk ''tool_call_chunks'' = Some (JArr (JObj fragment # rest))"
    and "py_get (JObj fragment) ''name'' = Inr tool_name"
    and "truthy tool_name"
    and "py_get (JObj fragment) ''args'' = Inr args"
    and "\<not> truthy args"
  shows "process_line loads str_of (''data: '' @ d) (Some ''messages'') =
           Inr (JStr (tool_call_header str_of tool_name))"
  using process_line_tool_chunk [where loads = loads and d = d and str_of = str_of, OF assms(1-5)]
    assms(6-9)
  by simp

lemma spec_tool_call_example:
  \<open>get_stream sample_loads sample_str_of (messages_event name_payload @ messages_event args_payload)
     = Inr (''\<newline>\<newline>< TOOL CALL: query_db >\<newline>\<newline>'' @ ''{"q":1}'')\<close>
proof -
  have n: "process_line sample_loads sample_str_of (''data: '' @ name_payload) (Some ''messages'')
             = Inr (JStr ''\<newline>\<newline>< TOOL CALL: query_db >\<newline>\<newline>'')"
    using name_only_fragment_header [where loads = sample_loads and d = name_payload
        and rm = "JObj []" and tool_name = "JStr ''query_db''" and args = "JStr []"
        and str_of = sample_str_of, OF sample_loads_name [unfolded ai_chunk_def]]
    by (simp add: tool_call_header_def)
  have a: \<open>process_line sample_loads sample_str_of (''data: '' @ args_payload) (Some ''messages'')
             = Inr (JStr ''{"q":1}'')\<close>
    using process_line_tool_chunk [where loads = sample_loads and d = args_payload
        and rm = "JObj []", OF sample_loads_args [unfolded ai_chunk_def]]
    by simp
  show ?thesis
    by (simp add: get_stream_def messages_event_def get_stream_step_marker
          get_stream_step_text [OF n, simplified] get_stream_step_text [OF a, simplified])
qed

text \<open>
  C2 says that a first fragment with a tool name yields the header marker, also when the
  fragment carries a non-empty argument string as well. For the fragment with the name
  \<^verbatim>\<open>query_db\<close> and the arguments \<^verbatim>\<open>{"q":1}\<close> the assignment of the arguments replaces the
  header: \<^verbatim>\<open>process_line\<close> returns the argument text, the transcript of \<^verbatim>\<open>get_stream\<close> holds
  no header, and \<^verbatim>\<open>Agent.stream\<close> yields the argument text alone.
\<close>

theorem header_lost_with_arguments:
  \<open>process_line sample_loads sample_str_of (''data: '' @ name_args_payload) (Some ''messages'')
     = Inr (JStr ''{"q":1}'')
   \<and> get_stream sample_loads sample_str_of (messages_event name_args_payload) = Inr ''{"q":1}''
   \<and> stream sample_str_of [name_args_chunk] = ([JStr ''{"q":1}''], None)\<close>
proof -
  have p: \<open>process_line sample_loads sample_str_of (''data: '' @ name_args_payload) (Some ''messages'')
     = Inr (JStr ''{"q":1}'')\<close>
    using process_line_tool_chunk [where loads = sample_loads and d = name_args_payload
        and rm = "JObj []", OF sample_loads_name_args [unfolded ai_chunk_def]]
    by simp
  have s: \<open>stream sample_str_of [name_args_chunk] = ([JStr ''{"q":1}''], None)\<close>
    by (simp add: stream_def stream_body_def name_args_chunk_def)
  from p s show ?thesis
    by (simp add: get_stream_one_event)
qed

subsection \<open>C3: a fragment with neither name nor arguments\<close>

text \<open>
  C3 says that \<^verbatim>\<open>process_line\<close> is total on \<^verbatim>\<open>messages\<close> lines whose payload is a pair. On
  the chunk whose only fragment is \<^verbatim>\<open>{"index":0,"args":""}\<close> neither assignment to
  \<^verbatim>\<open>tool_call_str\<close> runs and the \<^verbatim>\<open>return\<close> raises \<^verbatim>\<open>UnboundLocalError\<close>; the exception
  ends \<^verbatim>\<open>get_stream\<close>, and \<^verbatim>\<open>Agent.stream\<close> ends with the same exception on this chunk.
\<close>

theorem process_line_unbound_local:
  "process_line sample_loads sample_str_of (''data: '' @ empty_fragment_payload) (Some ''messages'')
     = Inl UnboundLocalError
   \<and> get_stream sample_loads sample_str_of (messages_event empty_fragment_payload)
       = Inl UnboundLocalError
   \<and> stream sample_str_of [empty_fragment_chunk] = ([], Some UnboundLocalError)"
proof -
  have p: "process_line sample_loads sample_str_of (''data: '' @ empty_fragment_payload)
             (Some ''messages'') = Inl UnboundLocalError"
    using process_line_tool_chunk [where loads = sample_loads and d = empty_fragment_payload
        and rm = "JObj []", OF sample_loads_empty_fragment [unfolded ai_chunk_def]]
    by simp
  have g: "get_stream sample_loads sample_str_of (messages_event empty_fragment_payload)
             = Inl UnboundLocalError"
    by (simp add: get_stream_def messages_event_def get_stream_step_marker
          get_stream_step_raises [OF p, simplified])
  have s: "stream sample_str_of [empty_fragment_chunk] = ([], Some UnboundLocalError)"
    by (simp add: stream_def stream_body_def empty_fragment_chunk_def)
  from p g s show ?thesis by simp
qed

subsection \<open>C4: argument fragments in arrival order\<close>

text \<open>
  C4: for every sequence of chunks that carry argument fragments, each on the wire as its
  event marker and its data line, the transcript that \<^verbatim>\<open>get_stream\<close> returns is the
  concatenation of the fragments in arrival order; and from any state of the loop the
  fragments are appended to what the transcript already holds.
\<close>

theorem argument_fragments_concatenated:
  assumes "\<forall>(d, a) \<in> set das. Option.bind (loads d) arg_fragment = Some a"
  shows "get_stream loads str_of (concat (map (\<lambda>(d, a). messages_event d) das))
           = Inr (concat (map snd das))
   \<and> get_stream_loop loads str_of (full_content, current_event)
         (concat (map (\<lambda>(d, a). messages_event d) das))
       = Inr (full_content @ concat (map snd das),
              if das = [] then current_event else Some ''messages'')"
  using get_stream_loop_fragments [OF assms, of str_of "[]" None]
    get_stream_loop_fragments [OF assms, of str_of full_content current_event]
  by (simp add: get_stream_def)

text \<open>Witness for C4: the fragments \<^verbatim>\<open>{"q":\<close> and \<^verbatim>\<open>1}\<close> of one tool call, in this order.\<close>

theorem argument_fragments_concatenated_witness:
  \<open>get_stream sample_loads sample_str_of
     (messages_event args_open_payload @ messages_event args_close_payload) = Inr ''{"q":1}''\<close>
  using argument_fragments_concatenated [where loads = sample_loads and str_of = sample_str_of
      and das = \<open>[(args_open_payload, ''{"q":''), (args_close_payload, ''1}'')]\<close>]
  by (simp add: sample_loads_open sample_loads_close ai_chunk_def arg_fragment_def)

subsection \<open>C5: a data line before any event marker\<close>

text \<open>
  C5 says that a data line that arrives before any event marker is signalled as a
  malformed stream. Counterexample to C5: the stream whose only line is the data line of
  the spec's own example returns the empty transcript, and \<^verbatim>\<open>process_line\<close> returns
  \<^verbatim>\<open>None\<close> for it; nothing is raised.
\<close>

theorem data_before_marker_counterexample:
  "get_stream sample_loads sample_str_of [''data: '' @ hi_payload] = Inr []
   \<and> process_line sample_loads sample_str_of (''data: '' @ hi_payload) None = Inr JNull"
proof -
  have p: "process_line sample_loads sample_str_of (''data: '' @ hi_payload) None = Inr JNull"
    by (rule process_line_other_kind) simp
  from get_stream_step_nothing [OF p, of "[]"] p show ?thesis
    by (simp add: get_stream_def)
qed

text \<open>
  C5 as amended: while the current event kind is undefined, \<^verbatim>\<open>process_line\<close> returns
  \<^verbatim>\<open>None\<close> for every line without raising, a data line leaves the transcript and the
  event kind as they are, and a stream that consists of one data line returns the empty
  transcript.
\<close>

theorem data_before_marker_ignored:
  "process_line loads str_of line None = Inr JNull
   \<and> get_stream_step loads str_of (full_content, None) (''data: '' @ payload)
       = Inr (full_content, None)
   \<and> get_stream loads str_of [''data: '' @ payload] = Inr []"
proof -
  have p: "process_line loads str_of line None = Inr JNull" for line
    by (rule process_line_other_kind) simp
  have s: "get_stream_step loads str_of (full_content, None) (''data: '' @ payload)
             = Inr (full_content, None)" for full_content
    by (rule get_stream_step_nothing [OF p])
  from p s [of "[]"] s show ?thesis by (simp add: get_stream_def)
qed

subsection \<open>C6: the router\<close>

text \<open>
  C6: on every state whose last message is a response of the model, the router, and so
  the edge out of the chatbot, goes to \<^verbatim>\<open>END\<close> when that response carries no tool calls
  and to the tools otherwise; and one step at the chatbot (the model call, then the edge)
  ends the run exactly when the response just appended carries no tool calls.
\<close>

theorem router_no_tool_calls:
  assumes "messages state = history @ [AIMessage reply]"
  shows "router state = Inr (if tool_calls reply = [] then END else Tools)
   \<and> next_node Chatbot state = Inr (if tool_calls reply = [] then END else Tools)
   \<and> after_chatbot llm system_prompt state =
       Inr (if tool_calls (llm ([SystemMessage system_prompt] @ messages state)) = []
            then END else Tools,
            scout_node llm system_prompt state)"
proof -
  have r: "router st = Inr (if tool_calls m = [] then END else Tools)"
    if "messages st = h @ [AIMessage m]" for st h m
    using that by (cases h) (simp_all add: router_def)
  have "messages (scout_node llm system_prompt state) =
          messages state @ [AIMessage (llm ([SystemMessage system_prompt] @ messages state))]"
    by (simp add: scout_node_def Let_def)
  from r [OF this] r [OF assms] show ?thesis
    by (simp add: after_chatbot_def Let_def)
qed

text \<open>Witness for C6: a reply without tool calls ends the run after one chatbot step, and a
  reply that asks for a tool goes to the tools.\<close>

theorem router_no_tool_calls_witness:
  "router answered = Inr END
   \<and> after_chatbot plain_llm ''You are a helpful assistant.'' answered
       = Inr (END, scout_node plain_llm ''You are a helpful assistant.'' answered)
   \<and> after_chatbot tool_llm ''You are a helpful assistant.'' answered
       = Inr (Tools, scout_node tool_llm ''You are a helpful assistant.'' answered)"
  using router_no_tool_calls [where state = answered and history = "[HumanMessage ''Hello'']"
      and reply = plain_reply and llm = plain_llm
      and system_prompt = "''You are a helpful assistant.''"]
    router_no_tool_calls [where state = answered and history = "[HumanMessage ''Hello'']"
      and reply = plain_reply and llm = tool_llm
      and system_prompt = "''You are a helpful assistant.''"]
  by (simp add: answered_def plain_reply_def tool_reply_def plain_llm_def tool_llm_def)

subsection \<open>C7: event kinds other than \<^verbatim>\<open>messages\<close>\<close>

text \<open>
  C7: while the current event kind is anything but \<^verbatim>\<open>messages\<close> (so also \<^verbatim>\<open>metadata\<close>),
  \<^verbatim>\<open>process_line\<close> returns \<^verbatim>\<open>None\<close> for every line and payload without raising, and a data
  line leaves the transcript as it is.
\<close>

theorem other_event_kinds_silent:
  assumes "current_event \<noteq> Some ''messages''"
  shows "process_line loads str_of line current_event = Inr JNull
   \<and> get_stream_step loads str_of (full_content, current_event) (''data: '' @ payload)
       = Inr (full_content, current_event)"
proof -
  have p: "process_line loads str_of line current_event = Inr JNull" for line
    using assms by (rule process_line_other_kind)
  from p get_stream_step_nothing [OF p] show ?thesis by simp
qed

text \<open>Witness for C7: a data line of a \<^verbatim>\<open>metadata\<close> event.\<close>

theorem other_event_kinds_silent_witness:
  "Some ''metadata'' \<noteq> Some ''messages''
   \<and> process_line sample_loads sample_str_of (''data: '' @ metadata_payload) (Some ''metadata'')
       = Inr JNull
   \<and> get_stream_step sample_loads sample_str_of (''Hi'', Some ''metadata'')
         (''data: '' @ metadata_payload)
       = Inr (''Hi'', Some ''metadata'')"
  using other_event_kinds_silent [where current_event = "Some ''metadata''"
      and loads = sample_loads and str_of = sample_str_of
      and line = "''data: '' @ metadata_payload" and payload = metadata_payload
      and full_content = "''Hi''"]
  by simp

subsection \<open>C8: plain content\<close>

text \<open>
  C8: for an \<^verbatim>\<open>AIMessageChunk\<close> without the finish marker and without tool-call fragments
  whose content is a string, the unit is that string; the loop appends it to the
  transcript (so the empty string adds nothing); and the stream of the event marker and
  this one data line returns the content as the transcript.
\<close>

theorem plain_content_unit:
  assumes "loads d = Some (JArr [JObj chunk, metadata])"
    and "map_of chunk ''type'' = Some (JStr ''AIMessageChunk'')"
    and "map_of chunk ''response_metadata'' = Some rm"
    and "no_finish_marker rm"
    and "map_of chunk ''tool_call_chunks'' = Some fragments"
    and "\<not> truthy fragments"
    and "map_of chunk ''content'' = Some (JStr s)"
  shows "process_line loads str_of (''data: '' @ d) (Some ''messages'') = Inr (JStr s)
   \<and> get_stream_step loads str_of (full_content, Some ''messages'') (''data: '' @ d)
       = Inr (full_content @ s, Some ''messages'')
   \<and> get_stream loads str_of [''event: messages'', ''data: '' @ d] = Inr s"
proof -
  have p: "process_line loads str_of (''data: '' @ d) (Some ''messages'') = Inr (JStr s)"
    using assms by (rule process_line_content)
  from p get_stream_step_text [OF p] get_stream_one_event [OF p] show ?thesis
    by (simp add: messages_event_def)
qed

text \<open>Witness for C8: the two lines of the spec's example are aggregated to \<^verbatim>\<open>Hi\<close>.\<close>

theorem plain_content_unit_witness:
  \<open>sample_loads ''[{"type":"AIMessageChunk","content":"Hi","tool_call_chunks":[],"response_metadata":{}}, {}]''
     = Some (JArr [JObj [(''type'', JStr ''AIMessageChunk''), (''content'', JStr ''Hi''),
                         (''tool_call_chunks'', JArr []), (''response_metadata'', JObj [])],
                   JObj []])
   \<and> get_stream sample_loads sample_str_of
       [''event: messages'',
        ''data: [{"type":"AIMessageChunk","content":"Hi","tool_call_chunks":[],"response_metadata":{}}, {}]'']
     = Inr ''Hi''\<close>
  using plain_content_unit [where loads = sample_loads and d = hi_payload and rm = "JObj []"
      and fragments = "JArr []" and s = "''Hi''" and str_of = sample_str_of,
      OF sample_loads_hi [unfolded ai_chunk_def]]
    sample_loads_hi
  by (simp add: hi_payload_def ai_chunk_def)

subsection \<open>C9: chunks of other message types\<close>

text \<open>
  C9: for a \<^verbatim>\<open>messages\<close> data line whose payload is a pair whose first element is an
  object without the entry \<^verbatim>\<open>type\<close> equal to \<^verbatim>\<open>AIMessageChunk\<close>, \<^verbatim>\<open>process_line\<close> returns
  \<^verbatim>\<open>None\<close>, and the loop leaves the transcript as it is.
\<close>

theorem other_message_types_dropped:
  assumes "loads d = Some (JArr [JObj chunk, metadata])"
    and "map_of chunk ''type'' \<noteq> Some (JStr ''AIMessageChunk'')"
  shows "process_line loads str_of (''data: '' @ d) (Some ''messages'') = Inr JNull
   \<and> get_stream_step loads str_of (full_content, Some ''messages'') (''data: '' @ d)
       = Inr (full_content, Some ''messages'')"
proof -
  have p: "process_line loads str_of (''data: '' @ d) (Some ''messages'') = Inr JNull"
    using assms by (rule process_line_not_ai)
  from p get_stream_step_nothing [OF p] show ?thesis by simp
qed

text \<open>Witness for C9: a streamed tool message.\<close>

theorem other_message_types_dropped_witness:
  "process_line sample_loads sample_str_of (''data: '' @ tool_message_payload) (Some ''messages'')
     = Inr JNull
   \<and> get_stream_step sample_loads sample_str_of (''Hi'', Some ''messages'')
         (''data: '' @ tool_message_payload)
       = Inr (''Hi'', Some ''messages'')"
  using other_message_types_dropped [where loads = sample_loads and d = tool_message_payload
      and str_of = sample_str_of and full_content = "''Hi''", OF sample_loads_tool_message]
  by simp

subsection \<open>C10: the check of the required environment variables\<close>

text \<open>
  C10: for every environment the check of the required variables ends without raising,
  with the two variables as they were read; so also for the empty environment, where
  both are missing.
\<close>

theorem required_env_check_never_raises:
  "required_env_check environ = Inr (environ ''SUPABASE_URL'', environ ''GROQ_API_KEY'')
   \<and> required_env_check Map.empty = Inr (None, None)"
  by (simp add: required_env_check_def required_env_vars_def getenv_def)

end
